theory Spec2Isabelle
  imports Main "HOL-Library.AList"
begin

section \<open>Values\<close>

text \<open>
  The repository stores and exchanges JSON-like Python values (the \<open>JSONField\<close>s of
  \<open>ServiceRequest\<close>, the scraper's dicts, the decoded API responses). Numbers are
  integers; a dict is an association list in insertion order.
\<close>

datatype json =
    JNull
  | JBool bool
  | JInt int
  | JStr string
  | JArr "json list"
  | JObj "(string \<times> json) list"

datatype error = AttributeError | TypeError | ValueError | KeyError | IndexError

text \<open>
  A point in time is a number of microseconds since the epoch (UTC), a \<open>timedelta\<close> a
  number of microseconds. \<open>datetime.date()\<close> is the day number; \<open>isoformat\<close> renders a day
  injectively, so the model keeps the day number where the code keeps its rendering.
\<close>

type_synonym time = int
type_synonym timedelta = int
type_synonym day = int

definition to_date :: "time \<Rightarrow> day" where
  "to_date t = t div 86400000000"

section \<open>models.py: the record store\<close>

record ServiceRequest =
  pk :: nat
  created_at :: time
  service :: string
  params :: json
  data :: json

text \<open>\<open>QuerySet.first()\<close>.\<close>

definition first :: "'a list \<Rightarrow> 'a option" where
  "first xs = (case xs of [] \<Rightarrow> None | x # _ \<Rightarrow> Some x)"

text \<open>
  \<open>order_by('-created_at')\<close>: newest first. The order among records of equal
  \<open>created_at\<close> is the database's; the model keeps the store's order there.
\<close>

definition order_by_created_at_desc :: "ServiceRequest list \<Rightarrow> ServiceRequest list" where
  "order_by_created_at_desc rs = sort_key (\<lambda>r. - created_at r) rs"

text \<open>\<open>ServiceRequest._last_request(service, params, date_time)\<close> with all three arguments given.\<close>

definition last_request_at ::
  "ServiceRequest list \<Rightarrow> string \<Rightarrow> json \<Rightarrow> time \<Rightarrow> ServiceRequest option" where
  "last_request_at store svc ps date_time =
     first (order_by_created_at_desc
       (filter (\<lambda>r. created_at r \<le> date_time)
         (filter (\<lambda>r. params r = ps)
           (filter (\<lambda>r. service r = svc) store))))"

text \<open>
  The default of \<open>date_time\<close> is the expression \<open>datetime.datetime.now(datetime.timezone.utc)\<close>
  in the \<open>def\<close> header. Python evaluates a default once, when the \<open>def\<close> statement runs, that is
  when the module is loaded: \<open>load_time\<close>. The clock of the call, \<open>now\<close>, is an argument of the
  model so that the theorems can say that it is not read.
\<close>

definition ServiceRequest_last_request ::
  "time \<Rightarrow> time \<Rightarrow> ServiceRequest list \<Rightarrow> string \<Rightarrow> json \<Rightarrow> time option \<Rightarrow> ServiceRequest option" where
  "ServiceRequest_last_request load_time now store svc ps date_time =
     last_request_at store svc ps (case date_time of None \<Rightarrow> load_time | Some t \<Rightarrow> t)"

section \<open>API.py: APIBase\<close>

text \<open>
  \<open>APIBase._last_request(params, date_time)\<close>: the same default, bound when API.py is loaded.
  It always passes a \<open>date_time\<close> on, so the default of models.py is not read on this path.
\<close>

definition APIBase_last_request ::
  "time \<Rightarrow> time \<Rightarrow> ServiceRequest list \<Rightarrow> string \<Rightarrow> json \<Rightarrow> time option \<Rightarrow> ServiceRequest option" where
  "APIBase_last_request load_time now store svc ps date_time =
     ServiceRequest_last_request load_time now store svc ps
       (Some (case date_time of None \<Rightarrow> load_time | Some t \<Rightarrow> t))"

datatype HTTPStatus = OK | INTERNAL_SERVER_ERROR

text \<open>The response dict; a key that a response does not have is \<open>None\<close>.\<close>

record response =
  status :: HTTPStatus
  cache_response :: "bool option"
  cache_date :: "day option"
  result :: "json option"
  error :: "string option"

text \<open>\<open>APIBase._cache(params, cache_time)\<close>, called at time \<open>now\<close>.\<close>

definition cache ::
  "time \<Rightarrow> time \<Rightarrow> ServiceRequest list \<Rightarrow> string \<Rightarrow> json \<Rightarrow> timedelta \<Rightarrow> response option" where
  "cache load_time now store svc ps cache_time =
     (case APIBase_last_request load_time now store svc ps None of
        None \<Rightarrow> None
      | Some last_request \<Rightarrow>
          (let d = now - cache_time in
           if created_at last_request < d then None
           else Some \<lparr> status = OK,
                       cache_response = Some True,
                       cache_date = Some (to_date (created_at last_request)),
                       result = Some (data last_request),
                       error = None \<rparr>))"


section \<open>Python's operations on these values\<close>

text \<open>Sequencing of computations that may raise: the first exception ends the computation.\<close>

definition bind :: "error + 'a \<Rightarrow> ('a \<Rightarrow> error + 'b) \<Rightarrow> error + 'b" where
  "bind m f = (case m of Inl e \<Rightarrow> Inl e | Inr x \<Rightarrow> f x)"

text \<open>A list comprehension whose element expression may raise.\<close>

fun mapM :: "('a \<Rightarrow> error + 'b) \<Rightarrow> 'a list \<Rightarrow> error + 'b list" where
  "mapM f [] = Inr []"
| "mapM f (x # xs) = bind (f x) (\<lambda>y. bind (mapM f xs) (\<lambda>ys. Inr (y # ys)))"

text \<open>A list comprehension with an \<open>if\<close> clause that may raise.\<close>

fun filterM :: "('a \<Rightarrow> error + bool) \<Rightarrow> 'a list \<Rightarrow> error + 'a list" where
  "filterM p [] = Inr []"
| "filterM p (x # xs) =
     bind (p x) (\<lambda>b. bind (filterM p xs) (\<lambda>ys. Inr (if b then x # ys else ys)))"

text \<open>\<open>d.get(k, default)\<close>; only a dict has the method.\<close>

fun dict_get :: "json \<Rightarrow> string \<Rightarrow> json \<Rightarrow> error + json" where
  "dict_get (JObj kvs) k dflt = Inr (case map_of kvs k of None \<Rightarrow> dflt | Some v \<Rightarrow> v)"
| "dict_get _ k dflt = Inl AttributeError"

text \<open>Truth value of an object, as \<open>if x\<close> and \<open>not x\<close> test it.\<close>

fun truthy :: "json \<Rightarrow> bool" where
  "truthy JNull = False"
| "truthy (JBool b) = b"
| "truthy (JInt n) = (n \<noteq> 0)"
| "truthy (JStr s) = (s \<noteq> [])"
| "truthy (JArr xs) = (xs \<noteq> [])"
| "truthy (JObj kvs) = (kvs \<noteq> [])"

text \<open>\<open>x[0]\<close>.\<close>

fun index0 :: "json \<Rightarrow> error + json" where
  "index0 (JArr []) = Inl IndexError"
| "index0 (JArr (x # xs)) = Inr x"
| "index0 (JStr []) = Inl IndexError"
| "index0 (JStr (c # cs)) = Inr (JStr [c])"
| "index0 (JObj kvs) = Inl KeyError"
| "index0 _ = Inl TypeError"

text \<open>\<open>for x in v\<close>: the elements of a list, the characters of a string, the keys of a dict.\<close>

fun iter :: "json \<Rightarrow> error + json list" where
  "iter (JArr xs) = Inr xs"
| "iter (JStr s) = Inr (map (\<lambda>c. JStr [c]) s)"
| "iter (JObj kvs) = Inr (map (\<lambda>kv. JStr (fst kv)) kvs)"
| "iter _ = Inl TypeError"

text \<open>\<open>s.startswith(p)\<close> and the substring test \<open>u in s\<close> on strings.\<close>

fun startswith :: "string \<Rightarrow> string \<Rightarrow> bool" where
  "startswith s [] = True"
| "startswith [] (p # ps) = False"
| "startswith (c # cs) (p # ps) = (c = p \<and> startswith cs ps)"

fun contains :: "string \<Rightarrow> string \<Rightarrow> bool" where
  "contains [] u = (u = [])"
| "contains (c # cs) u = (startswith (c # cs) u \<or> contains cs u)"

text \<open>\<open>u in v\<close> for a string \<open>u\<close>: substring of a string, element of a list, key of a dict.\<close>

fun str_in :: "string \<Rightarrow> json \<Rightarrow> error + bool" where
  "str_in u (JStr s) = Inr (contains s u)"
| "str_in u (JArr xs) = Inr (JStr u \<in> set xs)"
| "str_in u (JObj kvs) = Inr (u \<in> fst ` set kvs)"
| "str_in u _ = Inl TypeError"

text \<open>
  \<open>str.isdigit()\<close> and \<open>int(s)\<close> on ASCII text: \<open>int\<close> accepts surrounding whitespace, one
  sign and single underscores between digits.
\<close>

definition is_digit :: "char \<Rightarrow> bool" where
  "is_digit c = (c \<in> set ''0123456789'')"

definition isdigit :: "string \<Rightarrow> bool" where
  "isdigit s = (s \<noteq> [] \<and> list_all is_digit s)"

definition digit_value :: "char \<Rightarrow> int" where
  "digit_value c = int (of_char c) - 48"

definition decimal :: "string \<Rightarrow> int" where
  "decimal s = foldl (\<lambda>n c. 10 * n + digit_value c) 0 s"

definition is_space :: "char \<Rightarrow> bool" where
  "is_space c = (c \<in> set [CHR '' '', CHR 0x09, CHR 0x0A, CHR 0x0B, CHR 0x0C, CHR 0x0D,
                           CHR 0x1C, CHR 0x1D, CHR 0x1E, CHR 0x1F])"

definition strip :: "string \<Rightarrow> string" where
  "strip s = rev (dropWhile is_space (rev (dropWhile is_space s)))"

fun digits_ok :: "string \<Rightarrow> bool" where
  "digits_ok [] = False"
| "digits_ok [c] = is_digit c"
| "digits_ok (c # d # cs) =
     (is_digit c \<and> (if d = CHR ''_'' then digits_ok cs else digits_ok (d # cs)))"

definition int_of_digits :: "string \<Rightarrow> int option" where
  "int_of_digits s =
     (if digits_ok s then Some (decimal (filter (\<lambda>c. c \<noteq> CHR ''_'') s)) else None)"

definition int_of_string :: "string \<Rightarrow> int option" where
  "int_of_string s =
     (case strip s of
        [] \<Rightarrow> None
      | c # cs \<Rightarrow>
          if c = CHR ''-'' then map_option uminus (int_of_digits cs)
          else if c = CHR ''+'' then int_of_digits cs
          else int_of_digits (c # cs))"

text \<open>\<open>int(x)\<close>.\<close>

fun py_int :: "json \<Rightarrow> error + int" where
  "py_int (JInt n) = Inr n"
| "py_int (JBool b) = Inr (if b then 1 else 0)"
| "py_int (JStr s) = (case int_of_string s of None \<Rightarrow> Inl ValueError | Some n \<Rightarrow> Inr n)"
| "py_int _ = Inl TypeError"

text \<open>\<open>x == 1\<close>: \<open>True\<close> is equal to \<open>1\<close>.\<close>

definition equals_one :: "json \<Rightarrow> bool" where
  "equals_one v = (v = JInt 1 \<or> v = JBool True)"

text \<open>
  \<open>round(v / n)\<close> for integers \<open>v\<close> and \<open>n > 0\<close>: the quotient rounded to the nearest integer,
  a half to the even neighbour. The code divides in floating point; the model divides
  exactly, which is the same as long as the quotient is exact in a double.
\<close>

definition round_div :: "int \<Rightarrow> int \<Rightarrow> int" where
  "round_div v n =
     (let q = v div n; r = v mod n in
      if 2 * r < n then q
      else if n < 2 * r then q + 1
      else if even q then q else q + 1)"

section \<open>API.py: \<open>all\<close> and \<open>history\<close>\<close>

text \<open>\<open>first()\<close> on a query set without an ordering orders it by the primary key.\<close>

definition first_by_pk :: "ServiceRequest list \<Rightarrow> ServiceRequest option" where
  "first_by_pk rs = first (sort_key pk rs)"

text \<open>\<open>all(unique=False)\<close>: \<open>super()._all().filter(params=self.params)\<close>.\<close>

definition all_requests :: "ServiceRequest list \<Rightarrow> string \<Rightarrow> json \<Rightarrow> ServiceRequest list" where
  "all_requests store svc ps =
     filter (\<lambda>r. params r = ps) (filter (\<lambda>r. service r = svc) store)"

text \<open>
  \<open>all(unique=True)\<close>. The set \<open>days\<close> is enumerated in an order that Python does not
  specify; the model takes the order of first occurrence. The dates of the records and of
  the \<open>created_at__date\<close> lookup are both UTC dates.
\<close>

definition all_unique ::
  "ServiceRequest list \<Rightarrow> string \<Rightarrow> json \<Rightarrow> ServiceRequest option list" where
  "all_unique store svc ps =
     (let data = all_requests store svc ps;
          days = remdups (map (\<lambda>q. to_date (created_at q)) data)
      in map (\<lambda>day. first_by_pk (filter (\<lambda>r. to_date (created_at r) = day) data)) days)"

record history_entry =
  date :: day
  stats :: json

text \<open>One element of the comprehension of \<open>history\<close>; \<open>x\<close> is what \<open>first()\<close> returned.\<close>

fun history_row :: "ServiceRequest option \<Rightarrow> error + history_entry" where
  "history_row None = Inl AttributeError"
| "history_row (Some x) =
     bind (dict_get (data x) ''profile'' (JObj [])) (\<lambda>profile.
     bind (dict_get profile ''stats'' JNull) (\<lambda>s.
     Inr \<lparr> date = to_date (created_at x), stats = s \<rparr>))"

definition history :: "ServiceRequest list \<Rightarrow> string \<Rightarrow> json \<Rightarrow> error + history_entry list" where
  "history store svc ps = mapM history_row (all_unique store svc ps)"

text \<open>
  The two adapters: their service names and the \<open>params\<close> they are stored under. The field
  \<open>channel_id\<close> is \<open>self.id\<close> of \<open>APIYoutube\<close>, which is whatever value \<open>by_userName\<close> found.
\<close>

record APITwitter =
  username :: string


record APIYoutube =
  channel_id :: json
  api_key :: string




section \<open>API.py: RequestsHandler\<close>

text \<open>
  A GET request is its URL and its query parameters. The network answers a request with
  the decoded JSON body, or with \<open>None\<close> when \<open>requests.get\<close>, \<open>raise_for_status\<close> or the
  decoding raises one of the exceptions that \<open>make_request\<close> catches.
\<close>

record request =
  url :: string
  query :: "(string \<times> json) list"

type_synonym network = "request \<Rightarrow> json option"

definition make_request :: "network \<Rightarrow> string \<Rightarrow> string \<Rightarrow> (string \<times> json) list \<Rightarrow> json" where
  "make_request net base endpoint ps =
     (case net \<lparr> url = base @ endpoint, query = ps \<rparr> of
        Some body \<Rightarrow> body
      | None \<Rightarrow> JObj [])"

section \<open>API.py: APIYoutube.by_userName\<close>

definition base_url :: string where
  "base_url = ''https://www.googleapis.com/youtube/v3''"

text \<open>The lookup \<open>data__profile__userName__iexact\<close>: equal up to the case of ASCII letters.\<close>

definition lower :: "char \<Rightarrow> char" where
  "lower c =
     (case map_of (zip ''ABCDEFGHIJKLMNOPQRSTUVWXYZ'' ''abcdefghijklmnopqrstuvwxyz'') c of
        None \<Rightarrow> c
      | Some l \<Rightarrow> l)"

definition iexact :: "string \<Rightarrow> string \<Rightarrow> bool" where
  "iexact a b = (map lower a = map lower b)"

fun profile_userName_iexact :: "json \<Rightarrow> string \<Rightarrow> bool" where
  "profile_userName_iexact (JObj kvs) userName =
     (case map_of kvs ''profile'' of
        Some (JObj p) \<Rightarrow>
          (case map_of p ''userName'' of
             Some (JStr s) \<Rightarrow> iexact s userName
           | _ \<Rightarrow> False)
      | _ \<Rightarrow> False)"
| "profile_userName_iexact _ userName = False"

text \<open>The record that \<open>by_userName\<close> looks for in the store before it asks the API.\<close>

definition stored_profile :: "ServiceRequest list \<Rightarrow> string \<Rightarrow> ServiceRequest option" where
  "stored_profile store userName =
     first_by_pk (filter (\<lambda>r. service r = ''Youtube'' \<and> profile_userName_iexact (data r) userName) store)"

definition channels_by_handle :: "string \<Rightarrow> string \<Rightarrow> request" where
  "channels_by_handle userName key =
     \<lparr> url = base_url @ ''/channels'',
       query = [(''forHandle'', JStr userName), (''part'', JStr ''id''), (''key'', JStr key)] \<rparr>"

text \<open>
  \<open>by_userName\<close> returns the adapter, \<open>None\<close>, or raises; the second component lists the
  requests that it sent, in order.
\<close>

definition by_userName ::
  "network \<Rightarrow> ServiceRequest list \<Rightarrow> string \<Rightarrow> string \<Rightarrow> (error + APIYoutube option) \<times> request list" where
  "by_userName net store userName key =
     (if \<not> startswith userName ''@'' \<or> CHR '' '' \<in> set userName then (Inr None, [])
      else
        case stored_profile store userName of
          Some service_request \<Rightarrow>
            (bind (dict_get (data service_request) ''profile'' (JObj [])) (\<lambda>profile.
             bind (dict_get profile ''id'' JNull) (\<lambda>youtube_id.
             Inr (Some \<lparr> channel_id = youtube_id, api_key = key \<rparr>))),
             [])
        | None \<Rightarrow>
            (let response =
               make_request net base_url ''/channels''
                 [(''forHandle'', JStr userName), (''part'', JStr ''id''), (''key'', JStr key)]
             in
               if \<not> truthy response then Inr None
               else
                 bind (dict_get response ''pageInfo'' (JObj [])) (\<lambda>pageInfo.
                 bind (dict_get pageInfo ''totalResults'' (JInt 0)) (\<lambda>totalResults.
                 if \<not> equals_one totalResults then Inr None
                 else
                   bind (dict_get response ''items'' (JArr [])) (\<lambda>items.
                   bind (if truthy items
                         then bind (index0 items) (\<lambda>item. dict_get item ''id'' JNull)
                         else Inr JNull) (\<lambda>youtube_id.
                   if \<not> truthy youtube_id then Inr None
                   else Inr (Some \<lparr> channel_id = youtube_id, api_key = key \<rparr>))))),
             [channels_by_handle userName key]))"

section \<open>Collaborators of the Twitter adapter\<close>

text \<open>The constants of \<open>TwitterConfig\<close> (settings.py) that the adapter reads.\<close>

record TwitterConfig =
  CACHE_TIMEDELTA :: timedelta
  MAX_TWEETS :: int
  DEFAULT_IMG :: json
  DEFAULT_VIDEO :: json

text \<open>
  What \<open>dateparser.parse\<close> returns: a date and time of day, or \<open>None\<close> for a string that it
  cannot parse. \<open>isoformat\<close> renders it as \<open>YYYY-MM-DDTHH:MM:SS\<close>.
\<close>

record datetime =
  year :: nat
  month :: nat
  day :: nat
  hour :: nat
  minute :: nat
  second :: nat

type_synonym dateparser = "string \<Rightarrow> datetime option"

definition digit_char :: "nat \<Rightarrow> char" where
  "digit_char n = ''0123456789'' ! (n mod 10)"

definition pad2 :: "nat \<Rightarrow> string" where
  "pad2 n = [digit_char (n div 10), digit_char n]"

definition pad4 :: "nat \<Rightarrow> string" where
  "pad4 n = [digit_char (n div 1000), digit_char (n div 100), digit_char (n div 10), digit_char n]"

definition isoformat :: "datetime \<Rightarrow> string" where
  "isoformat d =
     pad4 (year d) @ ''-'' @ pad2 (month d) @ ''-'' @ pad2 (day d) @ ''T'' @
     pad2 (hour d) @ '':'' @ pad2 (minute d) @ '':'' @ pad2 (second d)"

text \<open>
  \<open>dateparser.parse(x).isoformat()\<close>: \<open>parse\<close> raises \<open>TypeError\<close> for an argument that is not a
  string, and the method call on \<open>None\<close> raises \<open>AttributeError\<close>.
\<close>

fun parse_isoformat :: "dateparser \<Rightarrow> json \<Rightarrow> error + json" where
  "parse_isoformat parse (JStr s) =
     (case parse s of None \<Rightarrow> Inl AttributeError | Some d \<Rightarrow> Inr (JStr (isoformat d)))"
| "parse_isoformat parse _ = Inl TypeError"


section \<open>API.py: APITwitter\<close>

text \<open>\<open>d[k] = v\<close> and \<open>d.update(other)\<close> on the items of a dict, \<open>d[k]\<close> on a value.\<close>

definition dict_update :: "(string \<times> json) list \<Rightarrow> (string \<times> json) list \<Rightarrow> (string \<times> json) list" where
  "dict_update kvs other = foldl (\<lambda>d kv. AList.update (fst kv) (snd kv) d) kvs other"

fun getitem :: "json \<Rightarrow> string \<Rightarrow> error + json" where
  "getitem (JObj kvs) k = (case map_of kvs k of None \<Rightarrow> Inl KeyError | Some v \<Rightarrow> Inr v)"
| "getitem _ k = Inl TypeError"



definition fallback_date :: string where
  "fallback_date = ''26/06/2003 15:00''"

text \<open>The condition of the comprehension that filters the tweets.\<close>

definition keeps :: "APITwitter \<Rightarrow> json \<Rightarrow> error + bool" where
  "keeps self tweet = bind (dict_get tweet ''link'' (JStr [])) (str_in (username self))"

text \<open>The dict \<open>d\<close> that the loop of \<open>__clean\<close> builds for one tweet.\<close>

definition tweet_row :: "TwitterConfig \<Rightarrow> dateparser \<Rightarrow> json \<Rightarrow> error + json" where
  "tweet_row cfg parse tweet =
     bind (dict_get tweet ''stats'' (JObj [])) (\<lambda>stats.
     bind (dict_get tweet ''user'' (JObj [])) (\<lambda>user.
     bind (dict_get tweet ''link'' (JStr ''#'')) (\<lambda>link.
     bind (dict_get tweet ''text'' (JStr [])) (\<lambda>text.
     bind (dict_get tweet ''pictures'' JNull) (\<lambda>pictures.
     bind (if truthy pictures
           then bind (dict_get tweet ''pictures'' (JArr [DEFAULT_IMG cfg])) index0
           else Inr (JStr [])) (\<lambda>picture.
     bind (dict_get tweet ''videos'' (JArr [DEFAULT_VIDEO cfg])) (\<lambda>video.
     bind (dict_get tweet ''date'' (JStr fallback_date)) (\<lambda>d.
     bind (parse_isoformat parse d) (\<lambda>dt.
     Inr (JObj [(''user'', user), (''url'', link), (''text'', text), (''picture'', picture),
                (''video'', video), (''statistics'', stats), (''datetime'', dt)]))))))))))"

text \<open>\<open>int(stats.get(key, 0))\<close> for the \<open>stats\<close> of a tweet.\<close>

definition tweet_stat :: "string \<Rightarrow> json \<Rightarrow> error + int" where
  "tweet_stat k tweet =
     bind (dict_get tweet ''stats'' (JObj [])) (\<lambda>stats.
     bind (dict_get stats k (JInt 0)) py_int)"

text \<open>\<open>more_statistics[key] += n\<close>.\<close>

definition add_to :: "string \<Rightarrow> int \<Rightarrow> (string \<times> int) list \<Rightarrow> (string \<times> int) list" where
  "add_to k n ms = map (\<lambda>kv. if fst kv = k then (fst kv, snd kv + n) else kv) ms"

text \<open>The loop of \<open>__clean\<close>, from the rows and sums so far.\<close>

fun tweets_loop ::
  "TwitterConfig \<Rightarrow> dateparser \<Rightarrow> json list \<Rightarrow> json list \<times> (string \<times> int) list \<Rightarrow>
     error + json list \<times> (string \<times> int) list" where
  "tweets_loop cfg parse [] acc = Inr acc"
| "tweets_loop cfg parse (tweet # rest) acc =
     bind (tweet_row cfg parse tweet) (\<lambda>d.
     bind (tweet_stat ''retweets'' tweet) (\<lambda>r.
     bind (tweet_stat ''likes'' tweet) (\<lambda>l.
     bind (tweet_stat ''comments'' tweet) (\<lambda>c.
     bind (tweet_stat ''quotes'' tweet) (\<lambda>q.
     tweets_loop cfg parse rest
       (fst acc @ [d],
        add_to ''avgQuotes'' q (add_to ''avgComments'' c
          (add_to ''avgLikes'' l (add_to ''avgRetweets'' r (snd acc))))))))))"

text \<open>The two dict comprehensions that turn the sums into the averages.\<close>

definition averages :: "nat \<Rightarrow> (string \<times> int) list \<Rightarrow> (string \<times> json) list" where
  "averages total_tweets ms =
     (if total_tweets > 0
      then map (\<lambda>kv. (fst kv, JInt (round_div (snd kv) (int total_tweets)))) ms
      else map (\<lambda>kv. (fst kv, JInt 0)) ms)"

definition clean :: "TwitterConfig \<Rightarrow> dateparser \<Rightarrow> APITwitter \<Rightarrow> json \<Rightarrow> json \<Rightarrow> error + json" where
  "clean cfg parse self profile tweets =
     bind (iter tweets) (\<lambda>ts.
     bind (filterM (keeps self) ts) (\<lambda>kept.
     bind (tweets_loop cfg parse kept
             ([], [(''avgRetweets'', 0), (''avgLikes'', 0), (''avgComments'', 0), (''avgQuotes'', 0)]))
       (\<lambda>acc.
     bind (dict_get profile ''joined'' (JStr fallback_date)) (\<lambda>j.
     bind (parse_isoformat parse j) (\<lambda>joined.
     (case profile of
        JObj p \<Rightarrow>
          bind (getitem (JObj (AList.update ''joined'' joined p)) ''stats'') (\<lambda>st.
          (case st of
             JObj s \<Rightarrow>
               Inr (JObj [(''profile'',
                           JObj (AList.update ''stats''
                                  (JObj (dict_update s (averages (length kept) (snd acc))))
                                  (AList.update ''joined'' joined p))),
                          (''tweets'', JArr (fst acc))])
           | _ \<Rightarrow> Inl AttributeError))
      | _ \<Rightarrow> Inl TypeError))))))"

section \<open>Notions of the specification\<close>

text \<open>The value under a key of a dict, for reading results.\<close>

fun field :: "json \<Rightarrow> string \<Rightarrow> json option" where
  "field (JObj kvs) k = map_of kvs k"
| "field _ k = None"


text \<open>What the code computes: Python's \<open>round\<close> of the quotient.\<close>

definition rounded_mean :: "int list \<Rightarrow> int" where
  "rounded_mean xs = (if xs = [] then 0 else round_div (sum_list xs) (int (length xs)))"

section \<open>API.py: APIYoutube\<close>

text \<open>
  The constants of \<open>YoutubeConfig\<close> (settings.py) that the adapter reads; \<open>CACHE_TIMEDELTA\<close>
  and \<open>DEFAULT_IMG\<close> carry a prefix to tell them from those of \<open>TwitterConfig\<close>.
\<close>

record YoutubeConfig =
  YT_CACHE_TIMEDELTA :: timedelta
  MAX_RESULTS :: int
  YT_DEFAULT_IMG :: json
  KEY :: string

text \<open>A chain \<open>d.get(p1, {}).get(p2, {}) ... .get(k, default)\<close>.\<close>

fun get_in :: "json \<Rightarrow> string list \<Rightarrow> string \<Rightarrow> json \<Rightarrow> error + json" where
  "get_in d [] k dflt = dict_get d k dflt"
| "get_in d (p # ps) k dflt = bind (dict_get d p (JObj [])) (\<lambda>x. get_in x ps k dflt)"




text \<open>\<open>int(x) if x.isdigit() else 0\<close>, the coercion of one value of a video's statistics.\<close>

fun coerce :: "json \<Rightarrow> error + json" where
  "coerce (JStr s) = (if isdigit s then bind (py_int (JStr s)) (\<lambda>n. Inr (JInt n)) else Inr (JInt 0))"
| "coerce _ = Inl AttributeError"

text \<open>\<open>dict(zip(stats.keys(), map(..., stats.values())))\<close>.\<close>

fun coerce_statistics :: "json \<Rightarrow> error + json" where
  "coerce_statistics (JObj kvs) =
     bind (mapM (\<lambda>kv. bind (coerce (snd kv)) (\<lambda>v. Inr (fst kv, v))) kvs) (\<lambda>kvs'. Inr (JObj kvs'))"
| "coerce_statistics _ = Inl AttributeError"

text \<open>The dict that the loop of \<open>__clean\<close> appends for one video.\<close>

definition video_row :: "YoutubeConfig \<Rightarrow> json \<Rightarrow> error + json" where
  "video_row cfg video =
     bind (dict_get video ''snippet'' (JObj [])) (\<lambda>snippet.
     bind (dict_get video ''statistics'' (JObj [])) (\<lambda>stats.
     bind (dict_get video ''id'' JNull) (\<lambda>vid.
     bind (dict_get snippet ''title'' JNull) (\<lambda>title.
     bind (dict_get snippet ''publishedAt'' JNull) (\<lambda>publishedAt.
     bind (get_in snippet [''thumbnails'', ''standard''] ''url'' (YT_DEFAULT_IMG cfg)) (\<lambda>image.
     bind (coerce_statistics stats) (\<lambda>statistics.
     Inr (JObj [(''id'', vid), (''title'', title), (''publishedAt'', publishedAt),
                (''image'', image), (''statistics'', statistics)]))))))))"

text \<open>\<open>int(stats.get(key, 0))\<close> for the \<open>statistics\<close> of a video.\<close>

definition video_stat :: "string \<Rightarrow> json \<Rightarrow> error + int" where
  "video_stat k video =
     bind (dict_get video ''statistics'' (JObj [])) (\<lambda>stats.
     bind (dict_get stats k (JInt 0)) py_int)"

fun videos_loop ::
  "YoutubeConfig \<Rightarrow> json list \<Rightarrow> json list \<times> (string \<times> int) list \<Rightarrow>
     error + json list \<times> (string \<times> int) list" where
  "videos_loop cfg [] acc = Inr acc"
| "videos_loop cfg (video # rest) acc =
     bind (video_row cfg video) (\<lambda>d.
     bind (video_stat ''viewCount'' video) (\<lambda>v.
     bind (video_stat ''likeCount'' video) (\<lambda>l.
     bind (video_stat ''commentCount'' video) (\<lambda>c.
     videos_loop cfg rest
       (fst acc @ [d],
        add_to ''avgComments'' c (add_to ''avgLikes'' l (add_to ''avgViews'' v (snd acc))))))))"

text \<open>\<open>APIYoutube.__clean\<close>; the arguments are the responses of \<open>/channels\<close> and \<open>/videos\<close>.\<close>

definition yt_clean :: "YoutubeConfig \<Rightarrow> json \<Rightarrow> json \<Rightarrow> error + json" where
  "yt_clean cfg profile_response videos_response =
     bind (dict_get profile_response ''items'' (JArr [])) (\<lambda>items.
     bind (index0 items) (\<lambda>profile.
     bind (get_in profile [''snippet''] ''title'' JNull) (\<lambda>name.
     bind (get_in profile [''snippet''] ''customUrl'' JNull) (\<lambda>userName.
     bind (dict_get profile ''id'' JNull) (\<lambda>pid.
     bind (get_in profile [''snippet''] ''publishedAt'' JNull) (\<lambda>joined.
     bind (get_in profile [''snippet'', ''thumbnails'', ''high''] ''url'' (YT_DEFAULT_IMG cfg)) (\<lambda>image.
     bind (get_in profile [''snippet''] ''country'' JNull) (\<lambda>country.
     bind (bind (get_in profile [''statistics''] ''viewCount'' (JInt 0)) py_int) (\<lambda>views.
     bind (bind (get_in profile [''statistics''] ''subscriberCount'' (JInt 0)) py_int) (\<lambda>subscribers.
     bind (bind (get_in profile [''statistics''] ''videoCount'' (JInt 0)) py_int) (\<lambda>videos.
     bind (dict_get videos_response ''items'' (JArr [])) (\<lambda>video_items.
     bind (iter video_items) (\<lambda>vs.
     bind (videos_loop cfg vs ([], [(''avgViews'', 0), (''avgLikes'', 0), (''avgComments'', 0)]))
       (\<lambda>acc.
     Inr (JObj [(''profile'',
                 JObj [(''name'', name), (''userName'', userName), (''id'', pid),
                       (''joined'', joined), (''image'', image), (''country'', country),
                       (''stats'',
                        JObj (dict_update
                                [(''views'', JInt views), (''subscribers'', JInt subscribers),
                                 (''videos'', JInt videos)]
                                (averages (length vs) (snd acc))))]),
                (''videos'', JArr (fst acc))])))))))))))))))"

section \<open>API.py: \<open>_save\<close> and \<open>get\<close>\<close>







section \<open>Test data\<close>

text \<open>
  A configuration, a date parser that knows the fallback string and one more date, a
  profile without \<open>joined\<close>, and three tweets of which the last is from another account and
  the second has no \<open>date\<close>.
\<close>

definition example_config :: TwitterConfig where
  "example_config =
     \<lparr> CACHE_TIMEDELTA = 3600000000, MAX_TWEETS = 10,
       DEFAULT_IMG = JStr ''default.png'', DEFAULT_VIDEO = JStr ''default.mp4'' \<rparr>"

definition example_parse :: dateparser where
  "example_parse s =
     (if s = ''26/06/2003 15:00''
      then Some \<lparr> year = 2003, month = 6, day = 26, hour = 15, minute = 0, second = 0 \<rparr>
      else if s = ''Jan 5, 2024 10:00 AM UTC''
      then Some \<lparr> year = 2024, month = 1, day = 5, hour = 10, minute = 0, second = 0 \<rparr>
      else None)"

definition example_profile :: json where
  "example_profile =
     JObj [(''name'', JStr ''NASA''), (''stats'', JObj [(''followers'', JInt 100)])]"

definition example_tweets :: json where
  "example_tweets =
     JArr [JObj [(''link'', JStr ''https://x.com/nasa/status/1''),
                 (''date'', JStr ''Jan 5, 2024 10:00 AM UTC''),
                 (''stats'', JObj [(''retweets'', JInt 1), (''likes'', JInt 2)])],
           JObj [(''link'', JStr ''https://x.com/nasa/status/2''),
                 (''stats'', JObj [(''retweets'', JInt 2), (''likes'', JInt 5)])],
           JObj [(''link'', JStr ''https://x.com/esa/status/3''),
                 (''stats'', JObj [(''retweets'', JInt 1000), (''likes'', JInt 1000)])]]"

definition example_cleaned :: json where
  "example_cleaned =
     JObj [(''profile'',
            JObj [(''name'', JStr ''NASA''),
                  (''stats'', JObj [(''followers'', JInt 100), (''avgRetweets'', JInt 2),
                                    (''avgLikes'', JInt 4), (''avgComments'', JInt 0),
                                    (''avgQuotes'', JInt 0)]),
                  (''joined'', JStr ''2003-06-26T15:00:00'')]),
           (''tweets'',
            JArr [JObj [(''user'', JObj []), (''url'', JStr ''https://x.com/nasa/status/1''),
                        (''text'', JStr []), (''picture'', JStr []),
                        (''video'', JArr [JStr ''default.mp4'']),
                        (''statistics'', JObj [(''retweets'', JInt 1), (''likes'', JInt 2)]),
                        (''datetime'', JStr ''2024-01-05T10:00:00'')],
                  JObj [(''user'', JObj []), (''url'', JStr ''https://x.com/nasa/status/2''),
                        (''text'', JStr []), (''picture'', JStr []),
                        (''video'', JArr [JStr ''default.mp4'']),
                        (''statistics'', JObj [(''retweets'', JInt 2), (''likes'', JInt 5)]),
                        (''datetime'', JStr ''2003-06-26T15:00:00'')]])]"

text \<open>
  Responses of the YouTube API: a channel without a thumbnail and without a subscriber
  count, the same channel with a view count that is not a number, and a video whose
  \<open>favoriteCount\<close> is not a number.
\<close>

definition example_youtube_config :: YoutubeConfig where
  "example_youtube_config =
     \<lparr> YT_CACHE_TIMEDELTA = 3600000000, MAX_RESULTS = 5,
       YT_DEFAULT_IMG = JStr ''default.png'', KEY = ''key'' \<rparr>"

definition example_channel :: json where
  "example_channel =
     JObj [(''pageInfo'', JObj [(''totalResults'', JInt 1)]),
           (''items'',
            JArr [JObj [(''id'', JStr ''UC1''),
                        (''snippet'', JObj [(''title'', JStr ''NASA''), (''customUrl'', JStr ''@nasa'')]),
                        (''statistics'', JObj [(''viewCount'', JStr ''1000''),
                                               (''videoCount'', JStr ''3'')])]])]"

definition example_channel_hidden :: json where
  "example_channel_hidden =
     JObj [(''pageInfo'', JObj [(''totalResults'', JInt 1)]),
           (''items'',
            JArr [JObj [(''id'', JStr ''UC1''),
                        (''snippet'', JObj [(''title'', JStr ''NASA''), (''customUrl'', JStr ''@nasa'')]),
                        (''statistics'', JObj [(''viewCount'', JStr ''hidden''),
                                               (''videoCount'', JStr ''3'')])]])]"

definition example_videos :: json where
  "example_videos =
     JObj [(''items'',
            JArr [JObj [(''id'', JStr ''v1''),
                        (''snippet'', JObj [(''title'', JStr ''Launch'')]),
                        (''statistics'', JObj [(''viewCount'', JStr ''100''),
                                               (''likeCount'', JStr ''7''),
                                               (''favoriteCount'', JStr ''n/a'')])]])]"





section \<open>The store's queries\<close>

lemma first_None [simp]: "first xs = None \<longleftrightarrow> xs = []"
  by (cases xs) (simp_all add: first_def)

lemma first_Some_mem: "first xs = Some x \<Longrightarrow> x \<in> set xs"
  by (cases xs) (simp_all add: first_def)

lemma first_sort_key_least:
  assumes "first (sort_key f xs) = Some x" and "y \<in> set xs"
  shows "f x \<le> f y"
proof -
  from assms(1) obtain zs where zs: "sort_key f xs = x # zs"
    by (cases "sort_key f xs") (simp_all add: first_def)
  have "sorted (map f (sort_key f xs))" by (rule sorted_sort_key)
  with zs have "\<forall>z\<in>set zs. f x \<le> f z" by simp
  moreover from assms(2) have "y \<in> set (sort_key f xs)" by simp
  ultimately show ?thesis using zs by auto
qed

lemma last_request_at_None:
  "last_request_at store svc ps t = None \<longleftrightarrow>
     (\<forall>r\<in>set store. service r = svc \<longrightarrow> params r = ps \<longrightarrow> t < created_at r)"
  by (auto simp: last_request_at_def order_by_created_at_desc_def filter_empty_conv
        simp flip: set_empty)

lemma last_request_at_Some:
  assumes "last_request_at store svc ps t = Some r"
  shows "r \<in> set store" and "service r = svc" and "params r = ps" and "created_at r \<le> t"
  using first_Some_mem [OF assms [unfolded last_request_at_def order_by_created_at_desc_def]]
  by simp_all

lemma last_request_at_newest:
  assumes "last_request_at store svc ps t = Some r"
    and "r' \<in> set store" "service r' = svc" "params r' = ps" "created_at r' \<le> t"
  shows "created_at r' \<le> created_at r"
proof -
  let ?ms = "filter (\<lambda>r. created_at r \<le> t)
      (filter (\<lambda>r. params r = ps) (filter (\<lambda>r. service r = svc) store))"
  have "r' \<in> set ?ms" using assms(2-5) by simp
  with assms(1) have "- created_at r \<le> - created_at r'"
    unfolding last_request_at_def order_by_created_at_desc_def
    by (rule first_sort_key_least)
  then show ?thesis by simp
qed


lemma cache_None_iff:
  "cache load_time now store svc ps W = None \<longleftrightarrow>
     (\<forall>r. last_request_at store svc ps load_time = Some r \<longrightarrow> W < now - created_at r)"
  by (auto simp: cache_def APIBase_last_request_def ServiceRequest_last_request_def Let_def
        split: option.splits)

text \<open>
  For a record that was already stored when the module was loaded, the lookup is the one
  of the specification: a hit up to and including the boundary \<open>w = W\<close>, a miss after it.
\<close>

lemma cache_hit_iff_within_window:
  assumes "service r = svc" "params r = ps" "created_at r = t0" "t0 \<le> load_time"
  shows "cache load_time (t0 + w) [r] svc ps W =
           (if w \<le> W
            then Some \<lparr> status = OK, cache_response = Some True, cache_date = Some (to_date t0),
                        result = Some (data r), error = None \<rparr>
            else None)"
  using assms
  by (simp add: cache_def APIBase_last_request_def ServiceRequest_last_request_def
        last_request_at_def order_by_created_at_desc_def first_def Let_def)

lemma cache_no_matching_record:
  assumes "\<forall>r\<in>set store. service r \<noteq> svc \<or> params r \<noteq> ps"
  shows "cache load_time now store svc ps W = None"
  using assms by (auto simp: cache_None_iff dest: last_request_at_Some)

text \<open>
  C1. A lookup at \<open>t0 + w\<close> with \<open>w \<le> W\<close> has to be a hit. The module is loaded at time
  \<open>0\<close>, a record is saved at \<open>t0 = 10\<close>, the window is \<open>W = 100\<close> and the lookup happens at
  \<open>t0 + 5\<close>: \<open>_cache\<close> asks \<open>_last_request\<close> for the records up to the load time, finds none
  and misses.
\<close>

theorem cache_misses_record_saved_after_load:
  "cache 0 (10 + 5) [\<lparr> pk = 1, created_at = 10, service = ''Twitter'',
       params = JObj [(''userName'', JStr ''nasa'')], data = JObj [] \<rparr>]
     ''Twitter'' (JObj [(''userName'', JStr ''nasa'')]) 100 = None"
  by (simp add: cache_def APIBase_last_request_def ServiceRequest_last_request_def
        last_request_at_def order_by_created_at_desc_def first_def)

text \<open>
  C9. The default \<open>date_time\<close> of \<open>_last_request\<close> (in models.py and in \<open>APIBase\<close>) is the load
  time of its module whatever the clock says at the call: two calls without \<open>date_time\<close>, at
  any two times, run the same query; what they return was created at or before the load
  time; and when every record of the store was created after the load time they return
  nothing.
\<close>

theorem last_request_default_bound_at_load:
  "ServiceRequest_last_request models_loaded now1 store svc ps None =
     ServiceRequest_last_request models_loaded now2 store svc ps None
   \<and> APIBase_last_request api_loaded now1 store svc ps None =
     APIBase_last_request api_loaded now2 store svc ps None
   \<and> ServiceRequest_last_request models_loaded now1 store svc ps None =
     last_request_at store svc ps models_loaded
   \<and> APIBase_last_request api_loaded now1 store svc ps None =
     last_request_at store svc ps api_loaded
   \<and> (\<forall>r. ServiceRequest_last_request models_loaded now1 store svc ps None = Some r
          \<longrightarrow> created_at r \<le> models_loaded)
   \<and> (\<forall>r. APIBase_last_request api_loaded now1 store svc ps None = Some r
          \<longrightarrow> created_at r \<le> api_loaded)
   \<and> ((\<forall>r\<in>set store. models_loaded < created_at r) \<longrightarrow>
        ServiceRequest_last_request models_loaded now1 store svc ps None = None)
   \<and> ((\<forall>r\<in>set store. api_loaded < created_at r) \<longrightarrow>
        APIBase_last_request api_loaded now1 store svc ps None = None)"
  by (auto simp: ServiceRequest_last_request_def APIBase_last_request_def last_request_at_None
        dest: last_request_at_Some)

theorem last_request_default_bound_at_load_witness:
  "0 < created_at \<lparr> pk = 1, created_at = 10, service = ''Twitter'',
        params = JObj [(''userName'', JStr ''nasa'')], data = JObj [] \<rparr>
   \<and> ServiceRequest_last_request 0 1000
        [\<lparr> pk = 1, created_at = 10, service = ''Twitter'',
           params = JObj [(''userName'', JStr ''nasa'')], data = JObj [] \<rparr>]
        ''Twitter'' (JObj [(''userName'', JStr ''nasa'')]) None = None
   \<and> APIBase_last_request 0 1000
        [\<lparr> pk = 1, created_at = 10, service = ''Twitter'',
           params = JObj [(''userName'', JStr ''nasa'')], data = JObj [] \<rparr>]
        ''Twitter'' (JObj [(''userName'', JStr ''nasa'')]) None = None"
proof -
  have h: "\<forall>r\<in>set [\<lparr> pk = 1, created_at = 10, service = ''Twitter'',
        params = JObj [(''userName'', JStr ''nasa'')], data = JObj [] \<rparr>]. 0 < created_at r"
    by simp
  from h last_request_default_bound_at_load [where models_loaded = 0 and api_loaded = 0
      and ?now1.0 = 1000 and ?now2.0 = 2000
      and store = "[\<lparr> pk = 1, created_at = 10, service = ''Twitter'',
           params = JObj [(''userName'', JStr ''nasa'')], data = JObj [] \<rparr>]"
      and svc = "''Twitter''" and ps = "JObj [(''userName'', JStr ''nasa'')]"]
  have "ServiceRequest_last_request 0 1000
        [\<lparr> pk = 1, created_at = 10, service = ''Twitter'',
           params = JObj [(''userName'', JStr ''nasa'')], data = JObj [] \<rparr>]
        ''Twitter'' (JObj [(''userName'', JStr ''nasa'')]) None = None
   \<and> APIBase_last_request 0 1000
        [\<lparr> pk = 1, created_at = 10, service = ''Twitter'',
           params = JObj [(''userName'', JStr ''nasa'')], data = JObj [] \<rparr>]
        ''Twitter'' (JObj [(''userName'', JStr ''nasa'')]) None = None"
    by blast
  then show ?thesis by simp
qed

section \<open>Computations that may raise\<close>

lemma bind_Inr_iff: "bind m f = Inr y \<longleftrightarrow> (\<exists>x. m = Inr x \<and> f x = Inr y)"
  by (cases m) (simp_all add: bind_def)

lemma bind_Inl_iff: "bind m f = Inl e \<longleftrightarrow> m = Inl e \<or> (\<exists>x. m = Inr x \<and> f x = Inl e)"
  by (cases m) (simp_all add: bind_def)

lemma bind_Inr [simp]: "bind (Inr x) f = f x"
  by (simp add: bind_def)

lemma bind_Inl [simp]: "bind (Inl e) f = Inl e"
  by (simp add: bind_def)

lemma mapM_Inr_iff: "mapM f xs = Inr ys \<longleftrightarrow> list_all2 (\<lambda>x y. f x = Inr y) xs ys"
proof (induction xs arbitrary: ys)
  case Nil
  show ?case by auto
next
  case (Cons x xs)
  show ?case
    by (cases ys) (auto simp: bind_Inr_iff Cons.IH)
qed

lemma mapM_total:
  assumes "\<And>x. x \<in> set xs \<Longrightarrow> \<exists>y. f x = Inr y"
  shows "\<exists>ys. mapM f xs = Inr ys"
  using assms
proof (induction xs)
  case Nil
  show ?case by simp
next
  case (Cons x xs)
  from Cons.prems obtain y where "f x = Inr y" by auto
  moreover from Cons obtain ys where "mapM f xs = Inr ys" by auto
  ultimately show ?case by simp
qed

section \<open>\<open>history\<close>\<close>

lemma first_by_pk_Some_mem: "first_by_pk rs = Some x \<Longrightarrow> x \<in> set rs"
  unfolding first_by_pk_def by (drule first_Some_mem) simp

lemma first_by_pk_None [simp]: "first_by_pk rs = None \<longleftrightarrow> rs = []"
  by (simp add: first_by_pk_def flip: set_empty)



text \<open>
  \<open>history\<close> returns for every store whose matching payloads are dicts with a dict (or
  nothing) under \<open>profile\<close>, which is what both adapters save.
\<close>

lemma history_returns:
  assumes "\<And>r. r \<in> set (all_requests store svc ps) \<Longrightarrow>
             \<exists>kvs. data r = JObj kvs \<and>
               (map_of kvs ''profile'' = None \<or> (\<exists>p. map_of kvs ''profile'' = Some (JObj p)))"
  shows "\<exists>es. history store svc ps = Inr es"
  unfolding history_def
proof (rule mapM_total)
  fix sel assume "sel \<in> set (all_unique store svc ps)"
  then obtain d where d: "d \<in> set (map (\<lambda>q. to_date (created_at q)) (all_requests store svc ps))"
    and sel: "sel = first_by_pk (filter (\<lambda>r. to_date (created_at r) = d) (all_requests store svc ps))"
    by (auto simp: all_unique_def Let_def)
  from d have "filter (\<lambda>r. to_date (created_at r) = d) (all_requests store svc ps) \<noteq> []"
    by (auto simp: filter_empty_conv)
  then have "sel \<noteq> None"
    unfolding sel by simp
  then obtain x where x: "sel = Some x"
    by (cases sel) simp_all
  with sel have "x \<in> set (all_requests store svc ps)"
    using first_by_pk_Some_mem [of "filter (\<lambda>r. to_date (created_at r) = d) (all_requests store svc ps)" x]
    by simp
  from assms [OF this] show "\<exists>y. history_row sel = Inr y"
    using x by auto
qed



section \<open>\<open>by_userName\<close>\<close>

text \<open>The request in the log of \<open>by_userName\<close> is the one that \<open>make_request\<close> sends.\<close>

lemma make_request_channels_by_handle:
  "make_request net base_url ''/channels''
     [(''forHandle'', JStr userName), (''part'', JStr ''id''), (''key'', JStr key)]
   = (case net (channels_by_handle userName key) of Some body \<Rightarrow> body | None \<Rightarrow> JObj [])"
  by (simp add: make_request_def channels_by_handle_def)

lemma equals_one_JInt [simp]: "equals_one (JInt n) \<longleftrightarrow> n = 1"
  by (simp add: equals_one_def)

text \<open>The record found in the store has a dict under \<open>profile\<close>, so reading its id does not raise.\<close>

lemma stored_profile_Some:
  assumes "stored_profile store userName = Some r"
  shows "r \<in> set store" and "service r = ''Youtube''" and "profile_userName_iexact (data r) userName"
  using first_by_pk_Some_mem [OF assms [unfolded stored_profile_def]] by simp_all

lemma profile_userName_iexact_id:
  assumes "profile_userName_iexact d userName"
  shows "\<exists>p v. dict_get d ''profile'' (JObj []) = Inr (JObj p) \<and> dict_get (JObj p) ''id'' JNull = Inr v"
  using assms by (cases d) (auto split: option.splits json.splits)

lemma by_userName_stored:
  assumes "startswith userName ''@''" "CHR '' '' \<notin> set userName"
    and "stored_profile store userName = Some r"
  shows "\<exists>v. by_userName net store userName key = (Inr (Some \<lparr> channel_id = v, api_key = key \<rparr>), [])"
proof -
  from stored_profile_Some(3) [OF assms(3)] obtain p v
    where "dict_get (data r) ''profile'' (JObj []) = Inr (JObj p)"
      and "dict_get (JObj p) ''id'' JNull = Inr v"
    using profile_userName_iexact_id by blast
  with assms show ?thesis
    by (simp add: by_userName_def)
qed



text \<open>
  C8. A well-formed handle that no stored record carries: one request is sent, the channel
  search. The result is \<open>None\<close> whenever the response reports a count \<open>n \<noteq> 1\<close> (a missing
  \<open>totalResults\<close> counts as \<open>0\<close>), and an adapter comes back only from a response whose
  \<open>totalResults\<close> equals \<open>1\<close> and whose first item has a non-empty \<open>id\<close>, the adapter's id.
\<close>

theorem by_userName_requires_one_result:
  assumes "startswith userName ''@''" and "CHR '' '' \<notin> set userName"
    and "stored_profile store userName = None"
    and "response = make_request net base_url ''/channels''
           [(''forHandle'', JStr userName), (''part'', JStr ''id''), (''key'', JStr key)]"
  shows "snd (by_userName net store userName key) = [channels_by_handle userName key]
    \<and> (\<forall>pageInfo n.
          dict_get response ''pageInfo'' (JObj []) = Inr pageInfo \<and>
          dict_get pageInfo ''totalResults'' (JInt 0) = Inr (JInt n) \<and> n \<noteq> 1
          \<longrightarrow> fst (by_userName net store userName key) = Inr None)
    \<and> (\<forall>a. fst (by_userName net store userName key) = Inr (Some a) \<longrightarrow>
          (\<exists>pageInfo totalResults items item.
             dict_get response ''pageInfo'' (JObj []) = Inr pageInfo \<and>
             dict_get pageInfo ''totalResults'' (JInt 0) = Inr totalResults \<and>
             equals_one totalResults \<and>
             dict_get response ''items'' (JArr []) = Inr items \<and>
             index0 items = Inr item \<and>
             dict_get item ''id'' JNull = Inr (channel_id a) \<and>
             truthy (channel_id a) \<and> api_key a = key))"
proof (intro conjI allI impI)
  show "snd (by_userName net store userName key) = [channels_by_handle userName key]"
    using assms(1-3) by (simp add: by_userName_def Let_def)
next
  fix pageInfo n
  assume "dict_get response ''pageInfo'' (JObj []) = Inr pageInfo \<and>
          dict_get pageInfo ''totalResults'' (JInt 0) = Inr (JInt n) \<and> n \<noteq> 1"
  then show "fst (by_userName net store userName key) = Inr None"
    using assms by (simp add: by_userName_def Let_def)
next
  fix a
  assume "fst (by_userName net store userName key) = Inr (Some a)"
  then show "\<exists>pageInfo totalResults items item.
             dict_get response ''pageInfo'' (JObj []) = Inr pageInfo \<and>
             dict_get pageInfo ''totalResults'' (JInt 0) = Inr totalResults \<and>
             equals_one totalResults \<and>
             dict_get response ''items'' (JArr []) = Inr items \<and>
             index0 items = Inr item \<and>
             dict_get item ''id'' JNull = Inr (channel_id a) \<and>
             truthy (channel_id a) \<and> api_key a = key"
    using assms
    by (auto simp: by_userName_def Let_def bind_Inr_iff split: if_splits)
qed

theorem by_userName_requires_one_result_witness:
  "startswith ''@nasa'' ''@'' \<and> CHR '' '' \<notin> set ''@nasa''
   \<and> stored_profile [] ''@nasa'' = None
   \<and> by_userName
       (\<lambda>r. Some (JObj [(''pageInfo'', JObj [(''totalResults'', JInt 2)]),
                         (''items'', JArr [JObj [(''id'', JStr ''UC1'')],
                                           JObj [(''id'', JStr ''UC2'')]])]))
       [] ''@nasa'' ''key''
     = (Inr None, [channels_by_handle ''@nasa'' ''key''])
   \<and> by_userName
       (\<lambda>r. Some (JObj [(''pageInfo'', JObj [(''totalResults'', JInt 1)]),
                         (''items'', JArr [JObj [(''id'', JStr ''UC1'')]])]))
       [] ''@nasa'' ''key''
     = (Inr (Some \<lparr> channel_id = JStr ''UC1'', api_key = ''key'' \<rparr>),
        [channels_by_handle ''@nasa'' ''key''])"
proof -
  let ?two = "\<lambda>r::request. Some (JObj [(''pageInfo'', JObj [(''totalResults'', JInt 2)]),
                         (''items'', JArr [JObj [(''id'', JStr ''UC1'')],
                                           JObj [(''id'', JStr ''UC2'')]])])"
  have a: "startswith ''@nasa'' ''@''" by simp
  have b: "CHR '' '' \<notin> set ''@nasa''" by simp
  have c: "stored_profile [] ''@nasa'' = None"
    by (simp add: stored_profile_def)
  note two = by_userName_requires_one_result [OF a b c refl, where net = ?two and key = "''key''"]
  have "dict_get (make_request ?two base_url ''/channels''
           [(''forHandle'', JStr ''@nasa''), (''part'', JStr ''id''), (''key'', JStr ''key'')])
          ''pageInfo'' (JObj []) = Inr (JObj [(''totalResults'', JInt 2)])
        \<and> dict_get (JObj [(''totalResults'', JInt 2)]) ''totalResults'' (JInt 0) = Inr (JInt 2)
        \<and> (2::int) \<noteq> 1"
    by (simp add: make_request_def)
  with two have "fst (by_userName ?two [] ''@nasa'' ''key'') = Inr None"
    and "snd (by_userName ?two [] ''@nasa'' ''key'') = [channels_by_handle ''@nasa'' ''key'']"
    by blast+
  then have d: "by_userName ?two [] ''@nasa'' ''key'' = (Inr None, [channels_by_handle ''@nasa'' ''key''])"
    by (simp add: prod_eq_iff)
  have e: "by_userName
       (\<lambda>r. Some (JObj [(''pageInfo'', JObj [(''totalResults'', JInt 1)]),
                         (''items'', JArr [JObj [(''id'', JStr ''UC1'')]])]))
       [] ''@nasa'' ''key''
     = (Inr (Some \<lparr> channel_id = JStr ''UC1'', api_key = ''key'' \<rparr>),
        [channels_by_handle ''@nasa'' ''key''])"
    by (simp add: by_userName_def stored_profile_def first_by_pk_def first_def
          make_request_def Let_def)
  from a b c d e show ?thesis by blast
qed

section \<open>Rounding\<close>



lemma rounded_mean_Nil [simp]: "rounded_mean [] = 0"
  by (simp add: rounded_mean_def)

section \<open>Strings\<close>

text \<open>\<open>startswith\<close> is the prefix test and \<open>contains\<close> the test for a contiguous part.\<close>

lemma startswith_iff: "startswith s p \<longleftrightarrow> (\<exists>ss. s = p @ ss)"
  by (induction s p rule: startswith.induct) auto

lemma contains_iff: "contains s u \<longleftrightarrow> (\<exists>ps ss. s = ps @ u @ ss)"
proof (induction s)
  case Nil
  show ?case by auto
next
  case (Cons c cs)
  have "(\<exists>ps ss. c # cs = ps @ u @ ss) \<longleftrightarrow>
        (\<exists>ss. c # cs = u @ ss) \<or> (\<exists>ps ss. cs = ps @ u @ ss)"
  proof
    assume "\<exists>ps ss. c # cs = ps @ u @ ss"
    then obtain ps ss where e: "c # cs = ps @ u @ ss" by blast
    show "(\<exists>ss. c # cs = u @ ss) \<or> (\<exists>ps ss. cs = ps @ u @ ss)"
    proof (cases ps)
      case Nil
      with e show ?thesis by auto
    next
      case (Cons p ps')
      with e have "cs = ps' @ u @ ss" by simp
      then show ?thesis by blast
    qed
  next
    assume "(\<exists>ss. c # cs = u @ ss) \<or> (\<exists>ps ss. cs = ps @ u @ ss)"
    then show "\<exists>ps ss. c # cs = ps @ u @ ss"
    proof
      assume "\<exists>ss. c # cs = u @ ss"
      then obtain ss where "c # cs = [] @ u @ ss" by auto
      then show ?thesis by blast
    next
      assume "\<exists>ps ss. cs = ps @ u @ ss"
      then obtain ps ss where "c # cs = (c # ps) @ u @ ss" by auto
      then show ?thesis by blast
    qed
  qed
  then show ?case by (simp add: Cons.IH startswith_iff)
qed

section \<open>The comprehension and the loop of \<open>APITwitter.__clean\<close>\<close>

lemma filterM_Inr:
  "filterM p xs = Inr ys \<Longrightarrow> ys = filter (\<lambda>x. p x = Inr True) xs"
  by (induction xs arbitrary: ys) (auto simp: bind_Inr_iff)

lemma filterM_idem:
  "filterM p xs = Inr ys \<Longrightarrow> filterM p ys = Inr ys"
  by (induction xs arbitrary: ys) (auto simp: bind_Inr_iff)

lemma filterM_total:
  assumes "\<And>x. x \<in> set xs \<Longrightarrow> \<exists>b. p x = Inr b"
  shows "filterM p xs = Inr (filter (\<lambda>x. p x = Inr True) xs)"
  using assms
proof (induction xs)
  case Nil
  show ?case by simp
next
  case (Cons x xs)
  from Cons.prems obtain b where "p x = Inr b" by auto
  moreover from Cons have "filterM p xs = Inr (filter (\<lambda>x. p x = Inr True) xs)" by auto
  ultimately show ?case by simp
qed

lemma mapM_length: "mapM f xs = Inr ys \<Longrightarrow> length ys = length xs"
  by (simp add: mapM_Inr_iff list_all2_lengthD)

text \<open>The loop returns the rows of the tweets and the sums of their four statistics.\<close>

lemma tweets_loop_Inr_iff:
  "tweets_loop cfg parse ts
     (rows, [(''avgRetweets'', a), (''avgLikes'', b), (''avgComments'', c), (''avgQuotes'', d)])
     = Inr acc
   \<longleftrightarrow> (\<exists>ds rs ls cs qs.
         mapM (tweet_row cfg parse) ts = Inr ds \<and>
         mapM (tweet_stat ''retweets'') ts = Inr rs \<and>
         mapM (tweet_stat ''likes'') ts = Inr ls \<and>
         mapM (tweet_stat ''comments'') ts = Inr cs \<and>
         mapM (tweet_stat ''quotes'') ts = Inr qs \<and>
         acc = (rows @ ds,
                [(''avgRetweets'', a + sum_list rs), (''avgLikes'', b + sum_list ls),
                 (''avgComments'', c + sum_list cs), (''avgQuotes'', d + sum_list qs)]))"
proof (induction ts arbitrary: rows a b c d)
  case Nil
  show ?case by auto
next
  case (Cons t ts)
  show ?case
    apply (simp add: bind_Inr_iff add_to_def Cons.IH)
    apply (auto simp: algebra_simps)
    done
qed

lemma averages_rounded_mean:
  assumes "length rs = n" "length ls = n" "length cs = n" "length qs = n"
  shows "averages n [(''avgRetweets'', sum_list rs), (''avgLikes'', sum_list ls),
                     (''avgComments'', sum_list cs), (''avgQuotes'', sum_list qs)]
       = [(''avgRetweets'', JInt (rounded_mean rs)), (''avgLikes'', JInt (rounded_mean ls)),
          (''avgComments'', JInt (rounded_mean cs)), (''avgQuotes'', JInt (rounded_mean qs))]"
  using assms by (auto simp: averages_def rounded_mean_def)

text \<open>
  What \<open>__clean\<close> returns when it returns: the rows of the tweets that pass the filter, and
  the profile with \<open>joined\<close> parsed and the four averages merged into its \<open>stats\<close>.
\<close>

lemma clean_Inr:
  assumes "clean cfg parse self profile tweets = Inr cleaned"
  obtains ts kept ds rs ls cs qs p joined s where
      "iter tweets = Inr ts" "filterM (keeps self) ts = Inr kept"
      "mapM (tweet_row cfg parse) kept = Inr ds"
      "mapM (tweet_stat ''retweets'') kept = Inr rs"
      "mapM (tweet_stat ''likes'') kept = Inr ls"
      "mapM (tweet_stat ''comments'') kept = Inr cs"
      "mapM (tweet_stat ''quotes'') kept = Inr qs"
      "profile = JObj p"
      "parse_isoformat parse (case map_of p ''joined'' of None \<Rightarrow> JStr fallback_date | Some j \<Rightarrow> j) = Inr joined"
      "map_of (AList.update ''joined'' joined p) ''stats'' = Some (JObj s)"
      "cleaned = JObj [(''profile'',
                JObj (AList.update ''stats''
                  (JObj (dict_update s
                     [(''avgRetweets'', JInt (rounded_mean rs)), (''avgLikes'', JInt (rounded_mean ls)),
                      (''avgComments'', JInt (rounded_mean cs)), (''avgQuotes'', JInt (rounded_mean qs))]))
                  (AList.update ''joined'' joined p))),
              (''tweets'', JArr ds)]"
proof -
  from assms obtain ts kept acc j joined where
    1: "iter tweets = Inr ts" and 2: "filterM (keeps self) ts = Inr kept"
    and 3: "tweets_loop cfg parse kept
             ([], [(''avgRetweets'', 0), (''avgLikes'', 0), (''avgComments'', 0), (''avgQuotes'', 0)]) = Inr acc"
    and 4: "dict_get profile ''joined'' (JStr fallback_date) = Inr j"
    and 5: "parse_isoformat parse j = Inr joined"
    and 6: "(case profile of
        JObj p \<Rightarrow>
          bind (getitem (JObj (AList.update ''joined'' joined p)) ''stats'') (\<lambda>st.
          (case st of
             JObj s \<Rightarrow>
               Inr (JObj [(''profile'',
                           JObj (AList.update ''stats''
                                  (JObj (dict_update s (averages (length kept) (snd acc))))
                                  (AList.update ''joined'' joined p))),
                          (''tweets'', JArr (fst acc))])
           | _ \<Rightarrow> Inl AttributeError))
      | _ \<Rightarrow> Inl TypeError) = Inr cleaned"
    unfolding clean_def bind_Inr_iff by blast
  from 3 obtain ds rs ls cs qs where
    m: "mapM (tweet_row cfg parse) kept = Inr ds"
      "mapM (tweet_stat ''retweets'') kept = Inr rs"
      "mapM (tweet_stat ''likes'') kept = Inr ls"
      "mapM (tweet_stat ''comments'') kept = Inr cs"
      "mapM (tweet_stat ''quotes'') kept = Inr qs"
    and acc: "acc = (ds, [(''avgRetweets'', sum_list rs), (''avgLikes'', sum_list ls),
                 (''avgComments'', sum_list cs), (''avgQuotes'', sum_list qs)])"
    unfolding tweets_loop_Inr_iff by auto
  from 4 obtain p where p: "profile = JObj p"
    and j: "j = (case map_of p ''joined'' of None \<Rightarrow> JStr fallback_date | Some j \<Rightarrow> j)"
    by (cases profile) auto
  from 6 p obtain s where s: "map_of (AList.update ''joined'' joined p) ''stats'' = Some (JObj s)"
    and d: "cleaned = JObj [(''profile'',
                           JObj (AList.update ''stats''
                                  (JObj (dict_update s (averages (length kept) (snd acc))))
                                  (AList.update ''joined'' joined p))),
                          (''tweets'', JArr (fst acc))]"
    by (auto simp: bind_Inr_iff split: option.splits json.splits)
  have av: "averages (length kept) (snd acc) =
      [(''avgRetweets'', JInt (rounded_mean rs)), (''avgLikes'', JInt (rounded_mean ls)),
       (''avgComments'', JInt (rounded_mean cs)), (''avgQuotes'', JInt (rounded_mean qs))]"
    unfolding acc snd_conv
    by (rule averages_rounded_mean) (rule mapM_length, rule m)+
  from 5 j have pj: "parse_isoformat parse (case map_of p ''joined'' of None \<Rightarrow> JStr fallback_date | Some j \<Rightarrow> j) = Inr joined"
    by simp
  from d av acc have dd: "cleaned = JObj [(''profile'',
                JObj (AList.update ''stats''
                  (JObj (dict_update s
                     [(''avgRetweets'', JInt (rounded_mean rs)), (''avgLikes'', JInt (rounded_mean ls)),
                      (''avgComments'', JInt (rounded_mean cs)), (''avgQuotes'', JInt (rounded_mean qs))]))
                  (AList.update ''joined'' joined p))),
              (''tweets'', JArr ds)]"
    by simp
  show thesis
    using 1 2 m p pj s dd by (rule that)
qed

text \<open>
  Conversely \<open>__clean\<close> returns whenever the filter, the rows, the four statistics of the
  retained tweets and the \<open>joined\<close> and \<open>stats\<close> of the profile can be computed.
\<close>

lemma clean_returns:
  assumes "iter tweets = Inr ts" and "filterM (keeps self) ts = Inr kept"
    and m: "mapM (tweet_row cfg parse) kept = Inr ds"
      "mapM (tweet_stat ''retweets'') kept = Inr rs"
      "mapM (tweet_stat ''likes'') kept = Inr ls"
      "mapM (tweet_stat ''comments'') kept = Inr cs"
      "mapM (tweet_stat ''quotes'') kept = Inr qs"
    and "profile = JObj p"
    and "parse_isoformat parse (case map_of p ''joined'' of None \<Rightarrow> JStr fallback_date | Some j \<Rightarrow> j) = Inr joined"
    and "map_of (AList.update ''joined'' joined p) ''stats'' = Some (JObj s)"
  shows "clean cfg parse self profile tweets =
           Inr (JObj [(''profile'',
                JObj (AList.update ''stats''
                  (JObj (dict_update s
                     [(''avgRetweets'', JInt (rounded_mean rs)), (''avgLikes'', JInt (rounded_mean ls)),
                      (''avgComments'', JInt (rounded_mean cs)), (''avgQuotes'', JInt (rounded_mean qs))]))
                  (AList.update ''joined'' joined p))),
              (''tweets'', JArr ds)])"
proof -
  have loop: "tweets_loop cfg parse kept
             ([], [(''avgRetweets'', 0), (''avgLikes'', 0), (''avgComments'', 0), (''avgQuotes'', 0)])
      = Inr (ds, [(''avgRetweets'', sum_list rs), (''avgLikes'', sum_list ls),
                 (''avgComments'', sum_list cs), (''avgQuotes'', sum_list qs)])"
    by (simp add: tweets_loop_Inr_iff m)
  have av: "averages (length kept) [(''avgRetweets'', sum_list rs), (''avgLikes'', sum_list ls),
                 (''avgComments'', sum_list cs), (''avgQuotes'', sum_list qs)] =
      [(''avgRetweets'', JInt (rounded_mean rs)), (''avgLikes'', JInt (rounded_mean ls)),
       (''avgComments'', JInt (rounded_mean cs)), (''avgQuotes'', JInt (rounded_mean qs))]"
    by (rule averages_rounded_mean) (rule mapM_length, rule m)+
  show ?thesis
    using assms(1,2,8,9,10)
    by (simp add: clean_def loop av)
qed

section \<open>\<open>APITwitter.__clean\<close>\<close>




lemma keeps_url:
  assumes "keeps self t = Inr True" and "dict_get t ''link'' (JStr ''#'') = Inr link"
  shows "str_in (username self) link = Inr True"
proof -
  from assms(2) obtain kvs where t: "t = JObj kvs" by (cases t) auto
  show ?thesis
  proof (cases "map_of kvs ''link''")
    case None
    with assms t have "username self = []" and "link = JStr ''#''"
      by (auto simp: keeps_def)
    then show ?thesis by simp
  next
    case (Some v)
    with assms t show ?thesis by (auto simp: keeps_def)
  qed
qed

lemma tweet_row_url:
  assumes "tweet_row cfg parse t = Inr row"
  shows "\<exists>link. dict_get t ''link'' (JStr ''#'') = Inr link \<and> field row ''url'' = Some link"
  using assms by (auto simp: tweet_row_def bind_Inr_iff)

text \<open>
  C7. When \<open>__clean\<close> returns, the normalized tweet list has one row for each tweet for which
  \<open>username in tweet.get('link', '')\<close> holds, in order, and none for the others; the \<open>url\<close> of
  every row contains the username; and the whole result, averages included, is the result
  for the retained tweets alone.
\<close>

theorem clean_filters_by_username:
  assumes "clean cfg parse self profile tweets = Inr cleaned"
  shows "\<exists>ts kept rows.
      iter tweets = Inr ts \<and> kept = filter (\<lambda>t. keeps self t = Inr True) ts \<and>
      field cleaned ''tweets'' = Some (JArr rows) \<and>
      list_all2 (\<lambda>t row. tweet_row cfg parse t = Inr row) kept rows \<and>
      (\<forall>row\<in>set rows. \<exists>link. field row ''url'' = Some link \<and>
                                  str_in (username self) link = Inr True) \<and>
      clean cfg parse self profile (JArr kept) = Inr cleaned"
proof -
  from assms obtain ts kept ds where
    1: "iter tweets = Inr ts" and 2: "filterM (keeps self) ts = Inr kept"
    and 3: "mapM (tweet_row cfg parse) kept = Inr ds"
    and 4: "field cleaned ''tweets'' = Some (JArr ds)"
    by (rule clean_Inr) simp
  have k: "kept = filter (\<lambda>t. keeps self t = Inr True) ts"
    using 2 by (rule filterM_Inr)
  from 3 have rows: "list_all2 (\<lambda>t row. tweet_row cfg parse t = Inr row) kept ds"
    by (simp add: mapM_Inr_iff)
  have urls: "\<forall>row\<in>set ds. \<exists>link. field row ''url'' = Some link \<and>
                                  str_in (username self) link = Inr True"
  proof
    fix row assume "row \<in> set ds"
    then obtain i where i: "i < length ds" and row: "row = ds ! i"
      by (auto simp: in_set_conv_nth)
    from rows have len: "length kept = length ds" by (rule list_all2_lengthD)
    from rows i row len have r: "tweet_row cfg parse (kept ! i) = Inr row"
      by (simp add: list_all2_conv_all_nth)
    define t where "t = kept ! i"
    from i len have t: "t \<in> set kept" by (simp add: t_def)
    note r = r [folded t_def]
    from t k have "keeps self t = Inr True" by simp
    moreover from tweet_row_url [OF r] obtain link
      where "dict_get t ''link'' (JStr ''#'') = Inr link" and "field row ''url'' = Some link"
      by blast
    ultimately show "\<exists>link. field row ''url'' = Some link \<and> str_in (username self) link = Inr True"
      using keeps_url by blast
  qed
  have again: "clean cfg parse self profile (JArr kept) = Inr cleaned"
    using assms 1 2 filterM_idem [OF 2]
    by (simp add: clean_def)
  show ?thesis
    by (intro exI conjI) (rule 1 k 4 rows urls again)+
qed




section \<open>\<open>__clean\<close> on the test data\<close>

lemma example_clean:
  "clean example_config example_parse \<lparr> username = ''nasa'' \<rparr> example_profile example_tweets
     = Inr example_cleaned"
  by (simp add: clean_def example_config_def example_parse_def example_profile_def
        example_tweets_def example_cleaned_def keeps_def tweet_row_def tweet_stat_def add_to_def
        averages_def dict_update_def fallback_date_def isoformat_def pad2_def pad4_def
        digit_char_def round_div_def Let_def)



theorem clean_filters_by_username_witness:
  "clean example_config example_parse \<lparr> username = ''nasa'' \<rparr> example_profile example_tweets
     = Inr example_cleaned
   \<and> (\<exists>ts kept rows.
      iter example_tweets = Inr ts \<and>
      kept = filter (\<lambda>t. keeps \<lparr> username = ''nasa'' \<rparr> t = Inr True) ts \<and>
      field example_cleaned ''tweets'' = Some (JArr rows) \<and>
      list_all2 (\<lambda>t row. tweet_row example_config example_parse t = Inr row) kept rows \<and>
      (\<forall>row\<in>set rows. \<exists>link. field row ''url'' = Some link \<and>
                                  str_in (username \<lparr> username = ''nasa'' \<rparr>) link = Inr True) \<and>
      clean example_config example_parse \<lparr> username = ''nasa'' \<rparr> example_profile (JArr kept)
        = Inr example_cleaned)"
  using example_clean clean_filters_by_username [OF example_clean] by (rule conjI)



section \<open>\<open>APIYoutube.__clean\<close>\<close>

lemmas youtube_eval =
  yt_clean_def video_row_def video_stat_def add_to_def averages_def dict_update_def
  round_div_def Let_def isdigit_def is_digit_def int_of_string_def strip_def is_space_def
  int_of_digits_def decimal_def digit_value_def

text \<open>
  The statistics of a video go through \<open>int(x) if x.isdigit() else 0\<close>: a string that is not
  made of digits becomes \<open>0\<close>.
\<close>

lemma coerce_not_digits: "\<not> isdigit s \<Longrightarrow> coerce (JStr s) = Inr (JInt 0)"
  by simp

text \<open>A string of digits is read by \<open>int\<close> as its decimal value.\<close>

lemma is_digit_not_space: "is_digit c \<Longrightarrow> \<not> is_space c"
  by (auto simp: is_digit_def is_space_def)

lemma is_digit_not_sign: "is_digit c \<Longrightarrow> c \<noteq> CHR ''-'' \<and> c \<noteq> CHR ''+'' \<and> c \<noteq> CHR ''_''"
  by (auto simp: is_digit_def)

lemma strip_digits:
  assumes "s \<noteq> []" "list_all is_digit s"
  shows "strip s = s"
proof -
  from assms obtain c cs where s: "s = c # cs" by (cases s) auto
  with assms have "\<not> is_space c" by (simp add: is_digit_not_space)
  then have 1: "dropWhile is_space s = s" by (simp add: s)
  from assms have "rev s \<noteq> []" by simp
  then obtain d ds where r: "rev s = d # ds" by (cases "rev s") auto
  then have "d \<in> set s" by (metis list.set_intros(1) set_rev)
  with assms have "\<not> is_space d" by (auto simp: list_all_iff is_digit_not_space)
  then have "dropWhile is_space (rev s) = rev s" by (simp add: r)
  with 1 show ?thesis by (simp add: strip_def)
qed

lemma digits_ok_digits: "s \<noteq> [] \<Longrightarrow> list_all is_digit s \<Longrightarrow> digits_ok s"
  by (induction s rule: digits_ok.induct) (auto dest: is_digit_not_sign)

lemma filter_digits: "list_all is_digit s \<Longrightarrow> filter (\<lambda>c. c \<noteq> CHR ''_'') s = s"
  by (induction s) (auto dest: is_digit_not_sign)

lemma int_of_string_digits: "isdigit s \<Longrightarrow> int_of_string s = Some (decimal s)"
proof -
  assume a: "isdigit s"
  then have ne: "s \<noteq> []" and d: "list_all is_digit s" by (simp_all add: isdigit_def)
  from ne obtain c cs where s: "s = c # cs" by (cases s) auto
  with d have c: "is_digit c" by simp
  have "int_of_digits s = Some (decimal s)"
    by (simp add: int_of_digits_def digits_ok_digits [OF ne d] filter_digits [OF d])
  moreover have "strip s = c # cs"
    using strip_digits [OF ne d] by (simp add: s)
  ultimately show ?thesis
    using is_digit_not_sign [OF c] by (simp add: int_of_string_def s)
qed

text \<open>So the coercion of a string never raises: digits give their number, anything else \<open>0\<close>.\<close>

lemma coerce_total: "coerce (JStr s) = Inr (JInt (if isdigit s then decimal s else 0))"
  by (simp add: int_of_string_digits)


text \<open>
  C6. The statistics of the channel go through a bare \<open>int(...)\<close>, without the \<open>isdigit\<close> test
  that the statistics of a video get: for a channel whose \<open>viewCount\<close> is the string
  \<open>hidden\<close>, \<open>__clean\<close> raises \<open>ValueError\<close> where the claim has the value \<open>0\<close>.
\<close>

theorem channel_statistic_not_numeric_raises:
  "yt_clean example_youtube_config example_channel_hidden example_videos = Inl ValueError"
  by (simp add: youtube_eval example_youtube_config_def example_channel_hidden_def
        example_videos_def)

text \<open>
  The sums for the averages use the same bare \<open>int(...)\<close>: a video whose \<open>viewCount\<close> is not a
  number makes \<open>__clean\<close> raise as well, after its row has been built with the value \<open>0\<close>.
\<close>

lemma video_view_count_not_numeric_raises:
  "yt_clean example_youtube_config example_channel
     (JObj [(''items'', JArr [JObj [(''id'', JStr ''v1''),
                                    (''statistics'', JObj [(''viewCount'', JStr ''n/a'')])]])])
   = Inl ValueError"
  by (simp add: youtube_eval example_youtube_config_def example_channel_def)

section \<open>\<open>get\<close>\<close>














end
